theory Spec2Isabelle
  imports Complex_Main
begin

section \<open>Python values, exceptions and the standard-library functions used\<close>

text \<open>
  The module \<^verbatim>\<open>mast/plugin_utils/plugin_functions.py\<close> builds keyword arguments for a
  command from the defaults of its signature and from a submitted form, and calls the
  command. The values that occur as defaults, as keyword arguments and as results of a
  command are Python objects; the constructors below are the types the code tests with
  \<^verbatim>\<open>isinstance\<close>, together with tuples (the result of a command) and floats (a default
  such as \<^verbatim>\<open>delay=0.5\<close> of \<^verbatim>\<open>cert_audit\<close>). A float is carried by its exact value;
  no arithmetic on floats is modelled.
\<close>

datatype pyval =
    PNone
  | PBool bool
  | PInt int
  | PFloat rat
  | PStr string
  | PList "pyval list"
  | PTuple "pyval list"

text \<open>
  Exceptions: the class and the text \<^verbatim>\<open>str(e)\<close>. The classes \<^verbatim>\<open>SystemExit\<close>,
  \<^verbatim>\<open>KeyboardInterrupt\<close> and \<^verbatim>\<open>GeneratorExit\<close> derive from \<^verbatim>\<open>BaseException\<close> only; every
  other class derives from \<^verbatim>\<open>Exception\<close>. \<open>OtherError n\<close> is any further subclass of
  \<^verbatim>\<open>Exception\<close>, by name. The texts of the errors the interpreter raises follow
  CPython 3.
\<close>

datatype exc_class =
    UnboundLocalError | TypeError | ValueError | IndexError | KeyError | AttributeError
  | SystemExit | KeyboardInterrupt | GeneratorExit
  | OtherError string

datatype py_exception = PyExc (exc_cls: exc_class) (exc_str: string)

fun is_Exception :: "exc_class \<Rightarrow> bool" where
  "is_Exception SystemExit = False"
| "is_Exception KeyboardInterrupt = False"
| "is_Exception GeneratorExit = False"
| "is_Exception _ = True"

text \<open>Truth value testing (\<^verbatim>\<open>not x\<close>, \<^verbatim>\<open>x or y\<close>).\<close>

fun truthy :: "pyval \<Rightarrow> bool" where
  "truthy PNone = False"
| "truthy (PBool b) = b"
| "truthy (PInt i) = (i \<noteq> 0)"
| "truthy (PFloat r) = (r \<noteq> 0)"
| "truthy (PStr s) = (s \<noteq> [])"
| "truthy (PList xs) = (xs \<noteq> [])"
| "truthy (PTuple xs) = (xs \<noteq> [])"

text \<open>\<^verbatim>\<open>x[0]\<close>: the first element of a sequence, \<^verbatim>\<open>IndexError\<close> on an empty one,
  \<^verbatim>\<open>TypeError\<close> on an object that is not subscriptable.\<close>

fun subscript0 :: "pyval \<Rightarrow> py_exception + pyval" where
  "subscript0 (PList (x # xs)) = Inr x"
| "subscript0 (PList []) = Inl (PyExc IndexError ''list index out of range'')"
| "subscript0 (PTuple (x # xs)) = Inr x"
| "subscript0 (PTuple []) = Inl (PyExc IndexError ''tuple index out of range'')"
| "subscript0 (PStr (c # cs)) = Inr (PStr [c])"
| "subscript0 (PStr []) = Inl (PyExc IndexError ''string index out of range'')"
| "subscript0 PNone = Inl (PyExc TypeError ''object is not subscriptable'')"
| "subscript0 (PBool b) = Inl (PyExc TypeError ''object is not subscriptable'')"
| "subscript0 (PInt i) = Inl (PyExc TypeError ''object is not subscriptable'')"
| "subscript0 (PFloat r) = Inl (PyExc TypeError ''object is not subscriptable'')"

text \<open>\<^verbatim>\<open>out, hist = v\<close>: unpacking into two targets.\<close>

fun unpack2_list :: "pyval list \<Rightarrow> py_exception + (pyval \<times> pyval)" where
  "unpack2_list [a, b] = Inr (a, b)"
| "unpack2_list [] = Inl (PyExc ValueError ''not enough values to unpack'')"
| "unpack2_list [a] = Inl (PyExc ValueError ''not enough values to unpack'')"
| "unpack2_list (a # b # c # cs) = Inl (PyExc ValueError ''too many values to unpack'')"

fun unpack2 :: "pyval \<Rightarrow> py_exception + (pyval \<times> pyval)" where
  "unpack2 (PTuple xs) = unpack2_list xs"
| "unpack2 (PList xs) = unpack2_list xs"
| "unpack2 (PStr s) = unpack2_list (map (\<lambda>c. PStr [c]) s)"
| "unpack2 PNone = Inl (PyExc TypeError ''cannot unpack non-iterable object'')"
| "unpack2 (PBool b) = Inl (PyExc TypeError ''cannot unpack non-iterable object'')"
| "unpack2 (PInt i) = Inl (PyExc TypeError ''cannot unpack non-iterable object'')"
| "unpack2 (PFloat r) = Inl (PyExc TypeError ''cannot unpack non-iterable object'')"

subsection \<open>\<^verbatim>\<open>os.path\<close> (the POSIX flavour: \<^verbatim>\<open>os.path.sep\<close> is \<^verbatim>\<open>/\<close>)\<close>

definition os_path_sep :: char where
  "os_path_sep = CHR ''/''"

text \<open>\<^verbatim>\<open>posixpath.join(a, *p)\<close>: a component that starts with the separator discards what
  came before it; a separator is inserted unless the path so far is empty or ends with
  one.\<close>

definition join_step :: "string \<Rightarrow> string \<Rightarrow> string" where
  "join_step path b =
     (if b \<noteq> [] \<and> hd b = os_path_sep then b
      else if path = [] \<or> last path = os_path_sep then path @ b
      else path @ [os_path_sep] @ b)"

definition os_path_join :: "string \<Rightarrow> string list \<Rightarrow> string" where
  "os_path_join a p = foldl join_step a p"

text \<open>\<^verbatim>\<open>str.rfind\<close> for a single character: the highest index, or \<open>-1\<close>.\<close>

definition rfind :: "string \<Rightarrow> char \<Rightarrow> int" where
  "rfind p c =
     (case filter (\<lambda>i. p ! i = c) (rev [0..<length p]) of
        [] \<Rightarrow> - 1
      | i # _ \<Rightarrow> int i)"

text \<open>\<^verbatim>\<open>genericpath._splitext\<close>: the extension starts at the last dot of the last
  component, unless that component consists of leading dots up to there. The while
  loop that skips the leading dots is \<open>splitext_scan\<close>.\<close>

function splitext_scan :: "string \<Rightarrow> nat \<Rightarrow> nat \<Rightarrow> string \<times> string" where
  "splitext_scan p filenameIndex dotIndex =
     (if filenameIndex < dotIndex then
        (if p ! filenameIndex \<noteq> CHR ''.'' then (take dotIndex p, drop dotIndex p)
         else splitext_scan p (Suc filenameIndex) dotIndex)
      else (p, []))"
  by pat_completeness auto
termination
  by (relation "measure (\<lambda>(p, filenameIndex, dotIndex). dotIndex - filenameIndex)") auto

declare splitext_scan.simps [simp del]

definition os_path_splitext :: "string \<Rightarrow> string \<times> string" where
  "os_path_splitext p =
     (let sepIndex = rfind p os_path_sep;
          dotIndex = rfind p (CHR ''.'')
      in if dotIndex > sepIndex
         then splitext_scan p (nat (sepIndex + 1)) (nat dotIndex)
         else (p, []))"

text \<open>\<^verbatim>\<open>s.replace(old, new)\<close> where \<^verbatim>\<open>old\<close> is one character.\<close>

definition str_replace :: "string \<Rightarrow> char \<Rightarrow> string \<Rightarrow> string" where
  "str_replace s old new = concat (map (\<lambda>c. if c = old then new else [c]) s)"

subsection \<open>\<^verbatim>\<open>int(s)\<close> and \<^verbatim>\<open>str(n)\<close>\<close>

definition is_space :: "char \<Rightarrow> bool" where
  "is_space c \<longleftrightarrow>
     (let n = (of_char c :: nat) in (9 \<le> n \<and> n \<le> 13) \<or> n = 32)"

definition is_digit :: "char \<Rightarrow> bool" where
  "is_digit c \<longleftrightarrow> (let n = (of_char c :: nat) in 48 \<le> n \<and> n \<le> 57)"

definition digit_val :: "char \<Rightarrow> nat" where
  "digit_val c = of_char c - 48"

definition strip :: "string \<Rightarrow> string" where
  "strip s = rev (dropWhile is_space (rev (dropWhile is_space s)))"

text \<open>Decimal digits, single underscores allowed between digits.\<close>

fun parse_digits :: "nat \<Rightarrow> bool \<Rightarrow> string \<Rightarrow> nat option" where
  "parse_digits acc prev_digit [] = (if prev_digit then Some acc else None)"
| "parse_digits acc prev_digit (c # cs) =
     (if is_digit c then parse_digits (10 * acc + digit_val c) True cs
      else if c = CHR ''_'' \<and> prev_digit then parse_digits acc False cs
      else None)"

text \<open>\<^verbatim>\<open>int(s)\<close> for a string: surrounding white space is stripped (the ASCII white
  space, codes 9 to 13 and 32; white space beyond ASCII is not modelled), a sign may precede
  the digits; \<open>None\<close> stands for the \<^verbatim>\<open>ValueError\<close> of a literal that is not a decimal
  integer.\<close>

definition int_of_str :: "string \<Rightarrow> int option" where
  "int_of_str s =
     (case strip s of
        [] \<Rightarrow> None
      | c # cs \<Rightarrow>
          if c = CHR ''-'' then map_option (\<lambda>n. - int n) (parse_digits 0 False cs)
          else if c = CHR ''+'' then map_option int (parse_digits 0 False cs)
          else map_option int (parse_digits 0 False (c # cs)))"

text \<open>\<^verbatim>\<open>int(x)\<close> where \<^verbatim>\<open>x\<close> is the result of \<^verbatim>\<open>form.get\<close>: a string or \<^verbatim>\<open>None\<close>.\<close>

definition py_int :: "string option \<Rightarrow> py_exception + int" where
  "py_int x =
     (case x of
        None \<Rightarrow> Inl (PyExc TypeError ''int() argument must be a string, a bytes-like object or a real number'')
      | Some s \<Rightarrow>
          (case int_of_str s of
             None \<Rightarrow> Inl (PyExc ValueError ''invalid literal for int() with base 10'')
           | Some n \<Rightarrow> Inr n))"

function str_nat :: "nat \<Rightarrow> string" where
  "str_nat n =
     (if n < 10 then [''0123456789'' ! n]
      else str_nat (n div 10) @ [''0123456789'' ! (n mod 10)])"
  by pat_completeness auto
termination
  by (relation "measure id") auto

declare str_nat.simps [simp del]

section \<open>The submitted form and the credential codec\<close>

text \<open>
  \<^verbatim>\<open>flask.request.form\<close> is a multi-dictionary: a field name has a list of submitted
  values, empty for a field that was not submitted. \<^verbatim>\<open>form.get(k)\<close> is the first value
  or \<^verbatim>\<open>None\<close>; \<^verbatim>\<open>form.getlist(k)\<close> is the whole list. \<^verbatim>\<open>flask.request.cookies\<close> is a
  dictionary, whose subscription raises \<^verbatim>\<open>KeyError\<close> on a missing key.
\<close>

record request =
  form :: "string \<Rightarrow> string list"
  cookies :: "string \<rightharpoonup> string"

definition form_get :: "(string \<Rightarrow> string list) \<Rightarrow> string \<Rightarrow> string option" where
  "form_get f k = (case f k of [] \<Rightarrow> None | v # _ \<Rightarrow> Some v)"

definition form_getlist :: "(string \<Rightarrow> string list) \<Rightarrow> string \<Rightarrow> string list" where
  "form_getlist f k = f k"

text \<open>
  Modelled from the spec: the module \<^verbatim>\<open>mast.xor\<close> with \<^verbatim>\<open>xorencode\<close> and \<^verbatim>\<open>xordecode\<close>
  is imported by \<^verbatim>\<open>plugin_functions.py\<close> and is not among the source files. The spec
  calls the codec a symmetric, session-keyed reversible transform over credential
  strings, \<^verbatim>\<open>encode(plaintext, key)\<close> and \<^verbatim>\<open>decode(cipherBytes, key)\<close>. The model is the
  transform the names say: each character is combined by exclusive or with the key,
  the key repeated cyclically along the text; decoding is the same transform. An
  empty key has no character to pair with, and the result is empty.
\<close>

fun xor_char :: "char \<Rightarrow> char \<Rightarrow> char" where
  "xor_char (Char a0 a1 a2 a3 a4 a5 a6 a7) (Char b0 b1 b2 b3 b4 b5 b6 b7) =
     Char (a0 \<noteq> b0) (a1 \<noteq> b1) (a2 \<noteq> b2) (a3 \<noteq> b3)
          (a4 \<noteq> b4) (a5 \<noteq> b5) (a6 \<noteq> b6) (a7 \<noteq> b7)"

fun xor_cycle :: "string \<Rightarrow> nat \<Rightarrow> string \<Rightarrow> string" where
  "xor_cycle key i [] = []"
| "xor_cycle key i (c # cs) =
     xor_char c (key ! (i mod length key)) # xor_cycle key (Suc i) cs"

definition xorencode :: "string \<Rightarrow> string \<Rightarrow> string" where
  "xorencode plaintext key = (if key = [] then [] else xor_cycle key 0 plaintext)"

definition xordecode :: "string \<Rightarrow> string \<Rightarrow> string" where
  "xordecode cipher key = (if key = [] then [] else xor_cycle key 0 cipher)"

definition printable_ascii :: "string \<Rightarrow> bool" where
  "printable_ascii s \<longleftrightarrow>
     list_all (\<lambda>c. 32 \<le> (of_char c :: nat) \<and> (of_char c :: nat) \<le> 126) s"

section \<open>The world a submission runs in\<close>

text \<open>
  What the code reads from and writes to outside its arguments: the clock behind
  \<^verbatim>\<open>Timestamp().timestamp\<close> (\<^verbatim>\<open>mast.timestamp\<close> is not among the source files), the
  number \<^verbatim>\<open>random.randint(10000, 99999)\<close> returns next, the files written, the text
  written to \<^verbatim>\<open>sys.stderr\<close>, and the text \<^verbatim>\<open>traceback.format_exc()\<close> gives for the
  exception being handled. Directories are not tracked, and writing a file succeeds.
\<close>

record world =
  clock :: string
  randint :: nat
  files :: "string \<rightharpoonup> string"
  stderr :: string
  format_exc :: "py_exception \<Rightarrow> string"

type_synonym kwargs = "string \<rightharpoonup> pyval"

type_synonym func = "kwargs \<Rightarrow> world \<Rightarrow> (py_exception + pyval) \<times> world"

section \<open>The command catalogue: \<^verbatim>\<open>_get_arguments\<close>\<close>

text \<open>
  A command is a Python function registered in \<^verbatim>\<open>module.cli._command_list\<close>, a
  dictionary from a category to the list of its commands. Of a function the code uses
  \<^verbatim>\<open>__name__\<close>, the \<^verbatim>\<open>args\<close> and \<^verbatim>\<open>defaults\<close> of \<^verbatim>\<open>inspect.getfullargspec\<close>
  (\<^verbatim>\<open>defaults\<close> is \<^verbatim>\<open>None\<close> for a function none of whose parameters has a default), and
  the call \<^verbatim>\<open>func(**kwargs)\<close>, which returns a value or raises and may change the
  world.
\<close>

record command =
  cmd_name :: string
  cmd_args :: "string list"
  cmd_defaults :: "pyval list option"
  cmd_call :: func

text \<open>
  The local variables of \<^verbatim>\<open>_get_arguments\<close>: \<^verbatim>\<open>found\<close>; \<^verbatim>\<open>args\<close> and \<^verbatim>\<open>defaults\<close>, bound
  together by the assignment at the match and unbound before; \<^verbatim>\<open>item\<close>, bound by the
  inner \<^verbatim>\<open>for\<close> to each command it visits.
\<close>

record lookup =
  found :: bool
  argspec :: "(string list \<times> pyval list option) option"
  item :: "command option"

fun scan_items :: "string option \<Rightarrow> command list \<Rightarrow> lookup \<Rightarrow> lookup" where
  "scan_items fn_name [] st = st"
| "scan_items fn_name (it # items) st =
     (if Some (cmd_name it) = fn_name
      then st\<lparr>found := True, argspec := Some (cmd_args it, cmd_defaults it), item := Some it\<rparr>
      else scan_items fn_name items (st\<lparr>item := Some it\<rparr>))"

fun scan_categories ::
  "string option \<Rightarrow> (string \<times> command list) list \<Rightarrow> lookup \<Rightarrow> lookup" where
  "scan_categories fn_name [] st = st"
| "scan_categories fn_name ((category, items) # rest) st =
     (if found st then st
      else scan_categories fn_name rest (scan_items fn_name items st))"

text \<open>
  \<^verbatim>\<open>_get_arguments(plugin, fn_name)\<close>, on the \<^verbatim>\<open>_command_list\<close> of the plugin's module
  (written \<open>priv_get_arguments\<close>: a name cannot begin with an underscore here).
  \<^verbatim>\<open>fn_name\<close> is what \<^verbatim>\<open>form.get("callable")\<close> gave: a string or \<^verbatim>\<open>None\<close>. The return
  statement reads \<^verbatim>\<open>args\<close> first: unbound, it raises \<^verbatim>\<open>UnboundLocalError\<close>. \<^verbatim>\<open>zip\<close> of the
  arguments with a \<^verbatim>\<open>defaults\<close> that is \<^verbatim>\<open>None\<close> raises \<^verbatim>\<open>TypeError\<close>.
\<close>

definition priv_get_arguments ::
  "(string \<times> command list) list \<Rightarrow> string option \<Rightarrow>
     py_exception + ((string \<times> pyval) list \<times> command)" where
  "priv_get_arguments command_list fn_name =
     (let st = scan_categories fn_name command_list
                 \<lparr>found = False, argspec = None, item = None\<rparr>
      in case argspec st of
           None \<Rightarrow>
             Inl (PyExc UnboundLocalError ''local variable args referenced before assignment'')
         | Some (args, None) \<Rightarrow>
             Inl (PyExc TypeError ''NoneType object is not iterable'')
         | Some (args, Some defaults) \<Rightarrow>
             (case item st of
                None \<Rightarrow>
                  Inl (PyExc UnboundLocalError ''local variable item referenced before assignment'')
              | Some it \<Rightarrow> Inr (zip args defaults, it)))"

section \<open>Coercion of the submitted fields: the loop of \<^verbatim>\<open>call_method\<close>\<close>

text \<open>\<^verbatim>\<open>form.get(arg) or default\<close> and \<^verbatim>\<open>int(form.get(arg)) or default\<close>.\<close>

definition str_or_default :: "string option \<Rightarrow> pyval \<Rightarrow> pyval" where
  "str_or_default x dflt =
     (case x of None \<Rightarrow> dflt | Some s \<Rightarrow> if truthy (PStr s) then PStr s else dflt)"

definition int_or_default :: "int \<Rightarrow> pyval \<Rightarrow> pyval" where
  "int_or_default n dflt = (if truthy (PInt n) then PInt n else dflt)"

text \<open>
  The list comprehension over the submitted credentials reads the session cookie once
  for each element, so a missing cookie raises only when there is an element.
\<close>

definition decode_credentials :: "request \<Rightarrow> string list \<Rightarrow> py_exception + pyval" where
  "decode_credentials req xs =
     (if xs = [] then Inr (PList [])
      else case cookies req ''9x4h/mmek/j.ahba.ckhafn'' of
             None \<Rightarrow> Inl (PyExc KeyError ''9x4h/mmek/j.ahba.ckhafn'')
           | Some cookie \<Rightarrow>
               Inr (PList (map (\<lambda>x. PStr (xordecode x (xorencode cookie ''_''))) xs)))"

text \<open>
  One iteration of the loop over \<^verbatim>\<open>arguments\<close> (lines 957 to 995): the chain of
  \<^verbatim>\<open>isinstance\<close> tests on the default, in the order of the source. \<open>name\<close> is the
  command name and \<open>ts\<close> the \<^verbatim>\<open>t.timestamp\<close> taken when \<^verbatim>\<open>call_method\<close> started. A
  default of any other type matches no branch, and nothing is assigned.
\<close>

fun coerce_arg ::
  "request \<Rightarrow> string \<Rightarrow> string \<Rightarrow> kwargs \<Rightarrow> string \<times> pyval \<Rightarrow> py_exception + kwargs" where
  "coerce_arg req name ts kwargs (arg, PBool b) =
     (if arg = ''web'' then Inr (kwargs(arg \<mapsto> PBool True))
      else if form_get (form req) arg = Some ''true'' then Inr (kwargs(arg \<mapsto> PBool True))
      else Inr (kwargs(arg \<mapsto> PBool False)))"
| "coerce_arg req name ts kwargs (arg, PList d) =
     (if arg = ''appliances''
      then Inr (kwargs(arg \<mapsto> PList (map PStr (form_getlist (form req) (arg @ ''[]'')))))
      else if arg = ''credentials''
      then (case decode_credentials req (form_getlist (form req) (arg @ ''[]'')) of
              Inl e \<Rightarrow> Inl e
            | Inr v \<Rightarrow> Inr (kwargs(arg \<mapsto> v)))
      else Inr (kwargs(arg \<mapsto> PList (map PStr (form_getlist (form req) (arg @ ''[]''))))))"
| "coerce_arg req name ts kwargs (arg, PStr d) =
     (if arg = ''out_dir''
      then Inr (kwargs(arg \<mapsto> PStr (os_path_join ''tmp'' [''web'', name, ts])))
      else if arg = ''out_file''
      then Inr (kwargs(arg \<mapsto> PStr (str_replace
                  (os_path_join ''tmp''
                     [''web'', name, ts @ ''-'' @ name @ snd (os_path_splitext d)])
                  os_path_sep ''/'')))
      else Inr (kwargs(arg \<mapsto> str_or_default (form_get (form req) arg) (PStr d))))"
| "coerce_arg req name ts kwargs (arg, PInt d) =
     (case py_int (form_get (form req) arg) of
        Inl e \<Rightarrow> Inl e
      | Inr n \<Rightarrow> Inr (kwargs(arg \<mapsto> int_or_default n (PInt d))))"
| "coerce_arg req name ts kwargs (arg, PNone) =
     Inr (kwargs(arg \<mapsto> str_or_default (form_get (form req) arg) PNone))"
| "coerce_arg req name ts kwargs (arg, PFloat r) = Inr kwargs"
| "coerce_arg req name ts kwargs (arg, PTuple xs) = Inr kwargs"

fun coerce_loop ::
  "request \<Rightarrow> string \<Rightarrow> string \<Rightarrow> (string \<times> pyval) list \<Rightarrow> kwargs \<Rightarrow> py_exception + kwargs" where
  "coerce_loop req name ts [] kwargs = Inr kwargs"
| "coerce_loop req name ts (a # arguments) kwargs =
     (case coerce_arg req name ts kwargs a of
        Inl e \<Rightarrow> Inl e
      | Inr kwargs' \<Rightarrow> coerce_loop req name ts arguments kwargs')"

definition coerce_kwargs ::
  "request \<Rightarrow> string \<Rightarrow> string \<Rightarrow> (string \<times> pyval) list \<Rightarrow> py_exception + kwargs" where
  "coerce_kwargs req name ts arguments = coerce_loop req name ts arguments Map.empty"

section \<open>The form: the classification of \<^verbatim>\<open>get_form\<close>\<close>

text \<open>
  What the loop of \<^verbatim>\<open>get_form\<close> does with one argument \<^verbatim>\<open>(key, value)\<close>: the control it
  renders, or \<open>Skipped\<close> where the branch is left by \<^verbatim>\<open>continue\<close> with nothing rendered.
  \<open>None\<close> is a default that matches no branch of the chain. \<open>object_status_args\<close> is the
  table \<^verbatim>\<open>OBJECT_STATUS_ARGS\<close>.
\<close>

datatype field =
    Skipped
  | Checkbox bool
  | MultiselectObjectStatus
  | MultiselectStatusProvider
  | MultiselectObjectClass
  | Multitext
  | SelectObjectStatus
  | SelectStatusProvider
  | SelectObjectClass
  | PasswordBox pyval
  | Textbox pyval
  | FileUpload

text \<open>\<^verbatim>\<open>sub in s\<close> for strings.\<close>

fun str_contains :: "string \<Rightarrow> string \<Rightarrow> bool" where
  "str_contains [] sub = (sub = [])"
| "str_contains (c # cs) sub = (take (length sub) (c # cs) = sub \<or> str_contains cs sub)"

fun get_form_field :: "string list \<Rightarrow> string \<Rightarrow> pyval \<Rightarrow> field option" where
  "get_form_field object_status_args key (PBool b) =
     (if key = ''web'' then Some Skipped else Some (Checkbox b))"
| "get_form_field object_status_args key (PList xs) =
     (if key = ''appliances'' \<or> key = ''credentials'' then Some Skipped
      else if key \<in> set object_status_args then Some MultiselectObjectStatus
      else if key = ''StatusProvider'' then Some MultiselectStatusProvider
      else if key = ''ObjectClass'' then Some MultiselectObjectClass
      else Some Multitext)"
| "get_form_field object_status_args key (PStr s) =
     (if key = ''out_dir'' then Some Skipped
      else if key = ''out_file'' then Some Skipped
      else if key \<in> set object_status_args then Some SelectObjectStatus
      else if key = ''StatusProvider'' then Some SelectStatusProvider
      else if key = ''ObjectClass'' then Some SelectObjectClass
      else if str_contains key ''password'' then Some (PasswordBox (PStr s))
      else Some (Textbox (PStr s)))"
| "get_form_field object_status_args key (PInt i) = Some (Textbox (PInt i))"
| "get_form_field object_status_args key PNone =
     (if key = ''out_file'' then Some Skipped
      else if key = ''file_in'' then Some FileUpload
      else Some (Textbox (PStr [])))"
| "get_form_field object_status_args key (PFloat r) = None"
| "get_form_field object_status_args key (PTuple xs) = None"

section \<open>The invoker: \<^verbatim>\<open>_call_method\<close>\<close>

text \<open>The replacement \<^verbatim>\<open>_func\<close> defined inside \<^verbatim>\<open>_call_method\<close> (lines 917 to 920).\<close>

definition no_appliance_func :: func where
  "no_appliance_func kwargs w =
     (Inr (PTuple [PStr ''Must select at least one appliance.'',
                   PStr ''Must select at least one appliance.'']), w)"

text \<open>
  Lines 912 to 921: without the key \<^verbatim>\<open>appliances\<close> the command is kept; otherwise
  \<^verbatim>\<open>kwargs["appliances"][0]\<close> is evaluated, which raises on an empty sequence, and the
  command is replaced when that first element is false.
\<close>

definition select_func :: "func \<Rightarrow> kwargs \<Rightarrow> py_exception + func" where
  "select_func func kwargs =
     (case kwargs ''appliances'' of
        None \<Rightarrow> Inr func
      | Some v \<Rightarrow>
          (case subscript0 v of
             Inl e \<Rightarrow> Inl e
           | Inr first \<Rightarrow> Inr (if \<not> truthy first then no_appliance_func else func)))"

text \<open>
  Lines 925 to 934, the handler \<^verbatim>\<open>except Exception as e\<close>: an exception that derives
  from \<^verbatim>\<open>Exception\<close> becomes the pair of the message and the traceback, which is also
  written to \<^verbatim>\<open>sys.stderr\<close>; any other exception passes through.
\<close>

definition unhandled_message :: "py_exception \<Rightarrow> string" where
  "unhandled_message e =
     ''Sorry, an unhandled exception occurred while '' @
     ''performing action:'' @ [CHR 0x0A, CHR 0x0A, CHR 0x09] @ '' '' @ exc_str e"

definition except_Exception ::
  "py_exception \<Rightarrow> world \<Rightarrow> (py_exception + (pyval \<times> pyval)) \<times> world" where
  "except_Exception e w =
     (if is_Exception (exc_cls e)
      then (Inr (PStr (unhandled_message e), PStr (format_exc w e)),
            w\<lparr>stderr := stderr w @ format_exc w e\<rparr>)
      else (Inl e, w))"

text \<open>Lines 923 to 934: the call and the unpacking of its result, both inside \<^verbatim>\<open>try\<close>.\<close>

definition try_call ::
  "func \<Rightarrow> kwargs \<Rightarrow> world \<Rightarrow> (py_exception + (pyval \<times> pyval)) \<times> world" where
  "try_call func kwargs w =
     (case func kwargs w of
        (Inl e, w') \<Rightarrow> except_Exception e w'
      | (Inr v, w') \<Rightarrow>
          (case unpack2 v of
             Inl e \<Rightarrow> except_Exception e w'
           | Inr (out, hist) \<Rightarrow> (Inr (out, hist), w')))"

text \<open>
  Lines 935 to 947: the history is written to
  \<^verbatim>\<open>var/www/static/tmp/request_history/{timestamp}/{timestamp}-{rand}.log\<close> and the pair
  of the output (wrapped in \<^verbatim>\<open>Markup\<close>, which the model leaves out) and the name of
  the log is returned. The file is opened before \<^verbatim>\<open>hist.encode()\<close> is evaluated, which
  raises \<^verbatim>\<open>AttributeError\<close> for a history that is not a string.
\<close>

definition history_dir :: "string \<Rightarrow> string" where
  "history_dir ts = os_path_join ''var'' [''www'', ''static'', ''tmp'', ''request_history'', ts]"

definition history_id :: "string \<Rightarrow> nat \<Rightarrow> string" where
  "history_id ts rand = ts @ ''-'' @ str_nat rand @ ''.log''"

definition write_history ::
  "pyval \<Rightarrow> pyval \<Rightarrow> world \<Rightarrow> (py_exception + (pyval \<times> string) option) \<times> world" where
  "write_history out hist w =
     (let ts = clock w;
          ident = history_id ts (randint w);
          filename = os_path_join (history_dir ts) [ident]
      in case hist of
           PStr h \<Rightarrow> (Inr (Some (out, ident)), w\<lparr>files := (files w)(filename \<mapsto> h)\<rparr>)
         | _ \<Rightarrow> (Inl (PyExc AttributeError ''object has no attribute encode''),
                 w\<lparr>files := (files w)(filename \<mapsto> [])\<rparr>))"

text \<open>
  \<^verbatim>\<open>_call_method(func, kwargs)\<close>, written \<open>priv_call_method\<close>. The result \<open>Inr None\<close>
  is the \<^verbatim>\<open>None\<close> a Python
  function returns when it reaches its end: the case of a \<^verbatim>\<open>kwargs\<close> without the key
  \<^verbatim>\<open>web\<close>.
\<close>

definition priv_call_method ::
  "func \<Rightarrow> kwargs \<Rightarrow> world \<Rightarrow> (py_exception + (pyval \<times> string) option) \<times> world" where
  "priv_call_method func kwargs w =
     (case select_func func kwargs of
        Inl e \<Rightarrow> (Inl e, w)
      | Inr f \<Rightarrow>
          if ''web'' \<in> dom kwargs then
            (case try_call f kwargs w of
               (Inl e, w') \<Rightarrow> (Inl e, w')
             | (Inr (out, hist), w') \<Rightarrow> write_history out hist w')
          else (Inr None, w))"

section \<open>\<^verbatim>\<open>call_method\<close> up to the invocation\<close>

text \<open>
  Lines 953 to 996 of \<^verbatim>\<open>call_method(plugin, form)\<close>: the timestamp, the command name from
  the field \<^verbatim>\<open>callable\<close>, the lookup, the coercion loop, the call of \<^verbatim>\<open>_call_method\<close> and
  the unpacking \<^verbatim>\<open>out, history_id = ...\<close> of its result, which raises \<^verbatim>\<open>TypeError\<close> on
  \<^verbatim>\<open>None\<close>. After a successful lookup the name is the \<^verbatim>\<open>__name__\<close> of the command found.
  The packaging that follows line 996 (archive, copy, rendering) is not modelled; the
  result here is what line 996 binds, with the keyword arguments.
\<close>

definition call_method_invoke ::
  "(string \<times> command list) list \<Rightarrow> request \<Rightarrow> world \<Rightarrow>
     (py_exception + (pyval \<times> string \<times> kwargs)) \<times> world" where
  "call_method_invoke command_list req w =
     (let ts = clock w;
          name = form_get (form req) ''callable''
      in case priv_get_arguments command_list name of
           Inl e \<Rightarrow> (Inl e, w)
         | Inr (arguments, cmd) \<Rightarrow>
             (case coerce_kwargs req (cmd_name cmd) ts arguments of
                Inl e \<Rightarrow> (Inl e, w)
              | Inr kwargs \<Rightarrow>
                  (case priv_call_method (cmd_call cmd) kwargs w of
                     (Inl e, w') \<Rightarrow> (Inl e, w')
                   | (Inr None, w') \<Rightarrow>
                       (Inl (PyExc TypeError ''cannot unpack non-iterable NoneType object''), w')
                   | (Inr (Some (out, ident)), w') \<Rightarrow> (Inr (out, ident, kwargs), w'))))"

section \<open>Auxiliary notions and concrete inputs\<close>

text \<open>
  Whether a default matches one of the branches of the chain in \<^verbatim>\<open>call_method\<close>:
  \<^verbatim>\<open>isinstance(default, bool)\<close>, \<^verbatim>\<open>list\<close>, \<^verbatim>\<open>str\<close>, \<^verbatim>\<open>int\<close>, or \<^verbatim>\<open>default is None\<close>.
\<close>

fun has_branch :: "pyval \<Rightarrow> bool" where
  "has_branch (PBool b) = True"
| "has_branch (PList xs) = True"
| "has_branch (PStr s) = True"
| "has_branch (PInt i) = True"
| "has_branch PNone = True"
| "has_branch (PFloat r) = False"
| "has_branch (PTuple xs) = False"

text \<open>\<^verbatim>\<open>kwargs.get(k)\<close> on the outcome of the coercion loop.\<close>

definition kwarg :: "py_exception + kwargs \<Rightarrow> string \<Rightarrow> py_exception + pyval option" where
  "kwarg r k = (case r of Inl e \<Rightarrow> Inl e | Inr kwargs \<Rightarrow> Inr (kwargs k))"

text \<open>A form in which no field was submitted, and forms with one or two fields.\<close>

definition no_fields :: "string \<Rightarrow> string list" where
  "no_fields k = []"

definition one_field :: "string \<Rightarrow> string \<Rightarrow> string \<Rightarrow> string list" where
  "one_field name v k = (if k = name then [v] else [])"

definition two_fields :: "string \<Rightarrow> string \<Rightarrow> string \<Rightarrow> string \<Rightarrow> string \<Rightarrow> string list" where
  "two_fields n1 v1 n2 v2 k = (if k = n1 then [v1] else if k = n2 then [v2] else [])"

definition request_of :: "(string \<Rightarrow> string list) \<Rightarrow> request" where
  "request_of f = \<lparr>form = f, cookies = Map.empty\<rparr>"

text \<open>A world: the clock reads \<^verbatim>\<open>20240101-000000\<close>, the next random number is 12345, no
  file has been written, and the traceback of an exception ends with its text.\<close>

definition sample_format_exc :: "py_exception \<Rightarrow> string" where
  "sample_format_exc e = ''Traceback (most recent call last): '' @ exc_str e"

definition sample_world :: world where
  "sample_world =
     \<lparr>clock = ''20240101-000000'', randint = 12345, files = Map.empty, stderr = [],
      format_exc = sample_format_exc\<rparr>"

text \<open>
  Commands: one that raises \<^verbatim>\<open>ValueError\<close> as \<^verbatim>\<open>cert_audit\<close> does for an output file that
  is neither csv nor xlsx; one that leaves by \<^verbatim>\<open>sys.exit(2)\<close> as \<^verbatim>\<open>cert_audit\<close> does
  without an output file; one that returns its pair.
\<close>

definition raising_func :: func where
  "raising_func kwargs w = (Inl (PyExc ValueError ''out_file must be either csv or xlsx''), w)"

definition exiting_func :: func where
  "exiting_func kwargs w = (Inl (PyExc SystemExit ''2''), w)"

definition returning_func :: func where
  "returning_func kwargs w = (Inr (PTuple [PStr ''<table/>'', PStr ''history'']), w)"

definition web_only :: kwargs where
  "web_only = [''web'' \<mapsto> PBool True]"

definition web_no_appliance :: kwargs where
  "web_no_appliance = [''appliances'' \<mapsto> PList [], ''web'' \<mapsto> PBool True]"

text \<open>A catalogue with the command \<^verbatim>\<open>def audit(timeout=120, web=False)\<close>, and one with
  \<^verbatim>\<open>def probe(web=None)\<close>, whose parameter \<^verbatim>\<open>web\<close> is not a boolean.\<close>

definition audit_cmd :: command where
  "audit_cmd =
     \<lparr>cmd_name = ''audit'', cmd_args = [''timeout'', ''web''],
      cmd_defaults = Some [PInt 120, PBool False], cmd_call = returning_func\<rparr>"

definition audit_catalogue :: "(string \<times> command list) list" where
  "audit_catalogue = [(''certificates'', [audit_cmd])]"

definition probe_cmd :: command where
  "probe_cmd =
     \<lparr>cmd_name = ''probe'', cmd_args = [''web''],
      cmd_defaults = Some [PNone], cmd_call = returning_func\<rparr>"

definition probe_catalogue :: "(string \<times> command list) list" where
  "probe_catalogue = [(''status'', [probe_cmd])]"

text \<open>A command without a parameter \<^verbatim>\<open>web\<close>: \<^verbatim>\<open>def ping(timeout=120)\<close>.\<close>

definition ping_cmd :: command where
  "ping_cmd =
     \<lparr>cmd_name = ''ping'', cmd_args = [''timeout''],
      cmd_defaults = Some [PInt 120], cmd_call = returning_func\<rparr>"

definition ping_catalogue :: "(string \<times> command list) list" where
  "ping_catalogue = [(''network'', [ping_cmd])]"

text \<open>
  The invariant of the two loops of \<^verbatim>\<open>_get_arguments\<close>: \<^verbatim>\<open>args\<close> and \<^verbatim>\<open>defaults\<close> are bound
  exactly when \<^verbatim>\<open>found\<close> is set, and then they are those of \<^verbatim>\<open>item\<close>, whose name is the
  one looked for.
\<close>

definition lookup_ok :: "string option \<Rightarrow> lookup \<Rightarrow> bool" where
  "lookup_ok fn_name st =
     (case argspec st of
        None \<Rightarrow> \<not> found st
      | Some (a, d) \<Rightarrow> found st \<and>
          (case item st of
             None \<Rightarrow> False
           | Some it \<Rightarrow> a = cmd_args it \<and> d = cmd_defaults it \<and> Some (cmd_name it) = fn_name))"

section \<open>The lookup fails for a name that is not in the catalogue\<close>

lemma scan_items_no_match:
  "\<forall>it \<in> set items. Some (cmd_name it) \<noteq> fn_name \<Longrightarrow>
   argspec (scan_items fn_name items st) = argspec st \<and>
   found (scan_items fn_name items st) = found st"
  by (induction items arbitrary: st) auto

lemma scan_categories_no_match:
  "\<forall>(category, items) \<in> set command_list. \<forall>it \<in> set items. Some (cmd_name it) \<noteq> fn_name \<Longrightarrow>
   argspec (scan_categories fn_name command_list st) = argspec st"
proof (induction command_list arbitrary: st)
  case Nil
  then show ?case by simp
next
  case (Cons c rest)
  obtain category items where c: "c = (category, items)" by (cases c)
  from Cons.prems c have here: "\<forall>it \<in> set items. Some (cmd_name it) \<noteq> fn_name"
    and later: "\<forall>(category, items) \<in> set rest. \<forall>it \<in> set items. Some (cmd_name it) \<noteq> fn_name"
    by auto
  show ?case
    using Cons.IH [OF later] scan_items_no_match [OF here] c by simp
qed

text \<open>
  What the lookup does with a name that no command of the catalogue bears (or with no
  name at all, when the field \<^verbatim>\<open>callable\<close> is missing): the loops end with \<^verbatim>\<open>found\<close>
  still false, nothing tests \<^verbatim>\<open>found\<close> after them and nothing is raised on purpose;
  the return statement reads the local variable \<^verbatim>\<open>args\<close>, which was never bound.
\<close>

lemma missing_name_unbound:
  assumes "\<forall>(category, items) \<in> set command_list. \<forall>it \<in> set items. Some (cmd_name it) \<noteq> fn_name"
  shows "priv_get_arguments command_list fn_name =
           Inl (PyExc UnboundLocalError ''local variable args referenced before assignment'')"
  using scan_categories_no_match [OF assms]
  by (simp add: priv_get_arguments_def)

text \<open>
  Claim C8. The claim has the lookup of a name that is not in the catalogue fail with
  a NotFound error, and with no other kind of error. For the catalogue that holds the
  one command \<^verbatim>\<open>audit\<close> and the name \<^verbatim>\<open>reboot\<close>, \<^verbatim>\<open>_get_arguments\<close> sets \<^verbatim>\<open>found\<close> in
  its loops and never tests it: it raises no error for the missing name, and fails
  only when its return statement reads the unbound \<^verbatim>\<open>args\<close>, with \<^verbatim>\<open>UnboundLocalError\<close>, an
  error about a variable of the function and not about the command.
\<close>

theorem missing_command_unbound_local:
  "priv_get_arguments audit_catalogue (Some ''reboot'') =
     Inl (PyExc UnboundLocalError ''local variable args referenced before assignment'')"
proof -
  have "\<forall>(category, items) \<in> set audit_catalogue. \<forall>it \<in> set items.
          Some (cmd_name it) \<noteq> Some ''reboot''"
    by (simp add: audit_catalogue_def audit_cmd_def)
  then show ?thesis by (rule missing_name_unbound)
qed

subsection \<open>A successful lookup returns the command it matched\<close>

lemma scan_items_ok:
  "\<not> found st \<Longrightarrow> argspec st = None \<Longrightarrow> lookup_ok fn_name (scan_items fn_name items st)"
  by (induction items arbitrary: st) (auto simp: lookup_ok_def)

lemma scan_categories_ok:
  "lookup_ok fn_name st \<Longrightarrow> lookup_ok fn_name (scan_categories fn_name command_list st)"
proof (induction command_list arbitrary: st)
  case Nil
  then show ?case by simp
next
  case (Cons c rest)
  obtain category items where c: "c = (category, items)" by (cases c)
  show ?case
  proof (cases "found st")
    case True
    with Cons.prems c show ?thesis by simp
  next
    case False
    with Cons.prems have "argspec st = None"
      by (auto simp: lookup_ok_def split: option.splits)
    with False have "lookup_ok fn_name (scan_items fn_name items st)"
      by (rule scan_items_ok)
    from Cons.IH [OF this] False c show ?thesis by simp
  qed
qed

lemma get_arguments_found:
  assumes "priv_get_arguments command_list fn_name = Inr (arguments, cmd)"
  shows "fn_name = Some (cmd_name cmd) \<and>
         (\<exists>ds. cmd_defaults cmd = Some ds \<and> arguments = zip (cmd_args cmd) ds)"
proof -
  let ?st = "scan_categories fn_name command_list \<lparr>found = False, argspec = None, item = None\<rparr>"
  have "lookup_ok fn_name \<lparr>found = False, argspec = None, item = None\<rparr>"
    by (simp add: lookup_ok_def)
  then have "lookup_ok fn_name ?st" by (rule scan_categories_ok)
  with assms show ?thesis
    by (auto simp: priv_get_arguments_def lookup_ok_def Let_def split: option.splits)
qed

section \<open>The credential codec\<close>

lemma xor_char_involution: "xor_char (xor_char c k) k = c"
  by (cases c; cases k) auto

lemma xor_cycle_involution: "xor_cycle key i (xor_cycle key i s) = s"
  by (induction s arbitrary: i) (simp_all add: xor_char_involution)

text \<open>
  Claim C9. For every printable ASCII string \<open>s\<close> and every key \<open>k\<close> that is not empty,
  decoding the encoding of \<open>s\<close> under \<open>k\<close> gives \<open>s\<close> back. The codec is the one
  modelled from the spec above.
\<close>

theorem codec_roundtrip:
  assumes "printable_ascii s" and "k \<noteq> []"
  shows "xordecode (xorencode s k) k = s"
  using assms(2) by (simp add: xordecode_def xorencode_def xor_cycle_involution)

theorem codec_roundtrip_witness:
  "printable_ascii ''admin:secret'' \<and> ''k3y'' \<noteq> [] \<and>
   xordecode (xorencode ''admin:secret'' ''k3y'') ''k3y'' = ''admin:secret''"
proof -
  have p: "printable_ascii ''admin:secret''" by (simp add: printable_ascii_def)
  have k: "''k3y'' \<noteq> []" by simp
  show ?thesis using p k codec_roundtrip [OF p k] by simp
qed

section \<open>The coercion loop\<close>

text \<open>
  An iteration touches no key but its own; it assigns its own key when the default
  matches a branch; a key of the result was there before or was assigned by such an
  iteration. With distinct parameter names, the value of a key at the end of the loop
  is the one its iteration assigned.
\<close>

lemma coerce_arg_other:
  "coerce_arg req name ts kw (a, d) = Inr kw' \<Longrightarrow> k \<noteq> a \<Longrightarrow> kw' k = kw k"
  by (cases d) (auto split: if_splits sum.splits)

lemma coerce_arg_dom:
  "coerce_arg req name ts kw (a, d) = Inr kw' \<Longrightarrow> has_branch d \<Longrightarrow> dom kw' = insert a (dom kw)"
  by (cases d) (auto split: if_splits sum.splits)

lemma coerce_arg_key:
  "coerce_arg req name ts kw (a, d) = Inr kw' \<Longrightarrow> k \<in> dom kw' \<Longrightarrow>
   k \<in> dom kw \<or> (k = a \<and> has_branch d)"
  by (cases d) (auto split: if_splits sum.splits)

lemma coerce_loop_dom:
  "coerce_loop req name ts arguments kw = Inr kw' \<Longrightarrow>
   list_all (\<lambda>(a, d). has_branch d) arguments \<Longrightarrow>
   dom kw' = dom kw \<union> fst ` set arguments"
proof (induction arguments arbitrary: kw)
  case Nil
  then show ?case by simp
next
  case (Cons x arguments)
  obtain a d where x: "x = (a, d)" by (cases x)
  from Cons.prems(1) x obtain kw1 where
    step: "coerce_arg req name ts kw (a, d) = Inr kw1" and
    rest: "coerce_loop req name ts arguments kw1 = Inr kw'"
    by (auto split: sum.splits)
  from Cons.prems(2) x have hb: "has_branch d"
    and hbs: "list_all (\<lambda>(a, d). has_branch d) arguments"
    by auto
  from coerce_arg_dom [OF step hb] Cons.IH [OF rest hbs] x show ?case by auto
qed

lemma coerce_loop_other:
  "coerce_loop req name ts arguments kw = Inr kw' \<Longrightarrow> k \<notin> fst ` set arguments \<Longrightarrow>
   kw' k = kw k"
proof (induction arguments arbitrary: kw)
  case Nil
  then show ?case by simp
next
  case (Cons x arguments)
  obtain a d where x: "x = (a, d)" by (cases x)
  from Cons.prems(1) x obtain kw1 where
    step: "coerce_arg req name ts kw (a, d) = Inr kw1" and
    rest: "coerce_loop req name ts arguments kw1 = Inr kw'"
    by (auto split: sum.splits)
  from Cons.prems(2) x have "k \<noteq> a" and "k \<notin> fst ` set arguments" by auto
  with coerce_arg_other [OF step] Cons.IH [OF rest] show ?case by simp
qed

lemma coerce_loop_key:
  "coerce_loop req name ts arguments kw = Inr kw' \<Longrightarrow> k \<in> dom kw' \<Longrightarrow>
   k \<in> dom kw \<or> (\<exists>d. (k, d) \<in> set arguments \<and> has_branch d)"
proof (induction arguments arbitrary: kw)
  case Nil
  then show ?case by simp
next
  case (Cons x arguments)
  obtain a d where x: "x = (a, d)" by (cases x)
  from Cons.prems(1) x obtain kw1 where
    step: "coerce_arg req name ts kw (a, d) = Inr kw1" and
    rest: "coerce_loop req name ts arguments kw1 = Inr kw'"
    by (auto split: sum.splits)
  from Cons.IH [OF rest Cons.prems(2)]
  show ?case
  proof
    assume "k \<in> dom kw1"
    from coerce_arg_key [OF step this] x show ?thesis by auto
  next
    assume "\<exists>d. (k, d) \<in> set arguments \<and> has_branch d"
    then show ?thesis by auto
  qed
qed

lemma coerce_loop_value:
  "coerce_loop req name ts arguments kw = Inr kw' \<Longrightarrow> (a, d) \<in> set arguments \<Longrightarrow>
   distinct (map fst arguments) \<Longrightarrow>
   \<exists>kw0 kw1. coerce_arg req name ts kw0 (a, d) = Inr kw1 \<and> kw' a = kw1 a"
proof (induction arguments arbitrary: kw)
  case Nil
  then show ?case by simp
next
  case (Cons x arguments)
  obtain b e where x: "x = (b, e)" by (cases x)
  from Cons.prems(1) x obtain kw1 where
    step: "coerce_arg req name ts kw (b, e) = Inr kw1" and
    rest: "coerce_loop req name ts arguments kw1 = Inr kw'"
    by (auto split: sum.splits)
  show ?case
  proof (cases "(a, d) = x")
    case True
    with Cons.prems(3) have "a \<notin> fst ` set arguments" by force
    from coerce_loop_other [OF rest this] have "kw' a = kw1 a" .
    with step True x show ?thesis by blast
  next
    case False
    with Cons.prems(2) have "(a, d) \<in> set arguments" by simp
    moreover from Cons.prems(3) have "distinct (map fst arguments)" by simp
    ultimately show ?thesis using Cons.IH [OF rest] by blast
  qed
qed

section \<open>The keys of the coerced mapping\<close>

text \<open>
  Claim C2, as stated, fails. The claim has the mapping contain every declared
  parameter also when a default is of a type outside bool, list, str, int and None.
  For the parameter \<^verbatim>\<open>delay=0.5\<close> of \<^verbatim>\<open>cert_audit\<close>, a float, no branch of the chain
  matches and the loop assigns nothing: the mapping built for the descriptor
  \<^verbatim>\<open>{delay: float=0.5}\<close> is empty, whatever was submitted.
\<close>

theorem float_default_dropped:
  "coerce_kwargs (request_of (one_field ''delay'' ''2'')) ''cert_audit'' ''20240101-000000''
     [(''delay'', PFloat (1 / 2))] = Inr Map.empty"
  by (simp add: coerce_kwargs_def)

text \<open>
  Claim C2, amended. For every command found by the lookup all of whose declared
  parameters have a default, each default a bool, a list, a str, an int or None, and
  for every submission on which the coercion completes, the keys of the coerced
  mapping are exactly the parameter names the command declares.
\<close>

theorem coerced_keys_exact:
  assumes "priv_get_arguments command_list fn_name = Inr (arguments, cmd)"
    and "cmd_defaults cmd = Some ds"
    and "length ds = length (cmd_args cmd)"
    and "list_all has_branch ds"
    and "coerce_kwargs req (cmd_name cmd) ts arguments = Inr kw"
  shows "dom kw = set (cmd_args cmd)"
proof -
  from get_arguments_found [OF assms(1)] assms(2)
  have args: "arguments = zip (cmd_args cmd) ds" by auto
  from assms(4) have "list_all (\<lambda>(a, d). has_branch d) (zip (cmd_args cmd) ds)"
    by (auto simp: list_all_iff dest: set_zip_rightD)
  with args assms(5) have "dom kw = fst ` set (zip (cmd_args cmd) ds)"
    using coerce_loop_dom [of req "cmd_name cmd" ts arguments Map.empty kw]
    by (simp add: coerce_kwargs_def)
  also have "\<dots> = set (cmd_args cmd)"
    using assms(3) by (metis map_fst_zip set_map)
  finally show ?thesis .
qed

theorem coerced_keys_exact_witness:
  "priv_get_arguments audit_catalogue (Some ''audit'') =
     Inr ([(''timeout'', PInt 120), (''web'', PBool False)], audit_cmd) \<and>
   cmd_defaults audit_cmd = Some [PInt 120, PBool False] \<and>
   length [PInt 120, PBool False] = length (cmd_args audit_cmd) \<and>
   list_all has_branch [PInt 120, PBool False] \<and>
   coerce_kwargs (request_of (one_field ''timeout'' ''30'')) (cmd_name audit_cmd)
     ''20240101-000000'' [(''timeout'', PInt 120), (''web'', PBool False)] =
     Inr [''timeout'' \<mapsto> PInt 30, ''web'' \<mapsto> PBool True] \<and>
   dom [''timeout'' \<mapsto> PInt 30, ''web'' \<mapsto> PBool True] = set (cmd_args audit_cmd)"
proof -
  have 1: "priv_get_arguments audit_catalogue (Some ''audit'') =
     Inr ([(''timeout'', PInt 120), (''web'', PBool False)], audit_cmd)"
    by (simp add: priv_get_arguments_def audit_catalogue_def audit_cmd_def)
  have 2: "cmd_defaults audit_cmd = Some [PInt 120, PBool False]"
    by (simp add: audit_cmd_def)
  have 3: "length [PInt 120, PBool False] = length (cmd_args audit_cmd)"
    by (simp add: audit_cmd_def)
  have 4: "list_all has_branch [PInt 120, PBool False]" by simp
  have 5: "coerce_kwargs (request_of (one_field ''timeout'' ''30'')) (cmd_name audit_cmd)
     ''20240101-000000'' [(''timeout'', PInt 120), (''web'', PBool False)] =
     Inr [''timeout'' \<mapsto> PInt 30, ''web'' \<mapsto> PBool True]"
    by (simp add: coerce_kwargs_def request_of_def one_field_def form_get_def
      py_int_def int_of_str_def strip_def is_space_def is_digit_def digit_val_def
      int_or_default_def)
  from coerced_keys_exact [OF 1 2 3 4 5] 1 2 3 4 5 show ?thesis by simp
qed

section \<open>Integer parameters\<close>

text \<open>
  What \<^verbatim>\<open>int(form.get(arg)) or default\<close> gives for a submitted field: the default when
  the field parses to zero, the parsed number otherwise.
\<close>

lemma int_field_present:
  assumes "form_get (form req) arg = Some s" and "int_of_str s = Some n"
  shows "coerce_arg req name ts kwargs (arg, PInt d) =
           Inr (kwargs(arg \<mapsto> (if n = 0 then PInt d else PInt n)))"
  using assms by (simp add: py_int_def int_or_default_def)

lemma int_field_zero:
  "kwarg (coerce_kwargs (request_of (one_field ''delay'' ''0'')) ''audit'' ''20240101-000000''
            [(''delay'', PInt 5)]) ''delay'' = Inr (Some (PInt 5))"
  by (simp add: kwarg_def coerce_kwargs_def request_of_def one_field_def form_get_def
      py_int_def int_of_str_def strip_def is_space_def is_digit_def digit_val_def
      int_or_default_def)

text \<open>
  Claim C3. The claim gives the default to an integer parameter both when the
  submitted field parses to zero and when the field is absent. For the descriptor
  \<^verbatim>\<open>{delay: int=5}\<close> and a submission without the field \<^verbatim>\<open>delay\<close>, \<^verbatim>\<open>form.get\<close> gives
  \<^verbatim>\<open>None\<close>, and \<^verbatim>\<open>int(None)\<close> raises \<^verbatim>\<open>TypeError\<close> before \<^verbatim>\<open>or default\<close> is reached: the
  coercion raises and no value is coerced.
\<close>

theorem int_field_absent_raises:
  "coerce_kwargs (request_of no_fields) ''audit'' ''20240101-000000'' [(''delay'', PInt 5)] =
     Inl (PyExc TypeError ''int() argument must be a string, a bytes-like object or a real number'')"
  by (simp add: coerce_kwargs_def request_of_def no_fields_def form_get_def py_int_def)

section \<open>Skipped parameters\<close>

text \<open>
  Claim C5, as stated, fails. The claim gives every skipped parameter its descriptor
  default in the coerced mapping. The flag \<^verbatim>\<open>web\<close> with the default \<^verbatim>\<open>False\<close> is skipped
  by \<^verbatim>\<open>get_form\<close>, and the loop of \<^verbatim>\<open>call_method\<close> sets it to \<^verbatim>\<open>True\<close>, not to its default.
\<close>

theorem skipped_not_default:
  "get_form_field [] ''web'' (PBool False) = Some Skipped \<and>
   kwarg (coerce_kwargs (request_of no_fields) ''cert_audit'' ''20240101-000000''
            [(''web'', PBool False)]) ''web'' = Inr (Some (PBool True)) \<and>
   PBool True \<noteq> PBool False"
  by (simp add: kwarg_def coerce_kwargs_def)

text \<open>
  Claim C5, amended. For every descriptor with distinct parameter names and every
  submission on which the coercion completes, every parameter that \<^verbatim>\<open>get_form\<close> skips
  is present in the coerced mapping, with the value the coercion computes for it:
  true for \<^verbatim>\<open>web\<close>; the submitted list \<^verbatim>\<open>appliances[]\<close> for \<^verbatim>\<open>appliances\<close>; the decoded
  submitted list \<^verbatim>\<open>credentials[]\<close> for \<^verbatim>\<open>credentials\<close>; the synthesized paths for
  \<^verbatim>\<open>out_dir\<close> and for an \<^verbatim>\<open>out_file\<close> with a string default; and for an \<^verbatim>\<open>out_file\<close>
  whose default is None, the submitted field \<^verbatim>\<open>out_file\<close> when it is not empty and
  None otherwise.
\<close>

theorem skipped_present:
  assumes "coerce_kwargs req name ts arguments = Inr kw"
    and "(arg, d) \<in> set arguments"
    and "distinct (map fst arguments)"
    and "get_form_field object_status_args arg d = Some Skipped"
  shows "arg \<in> dom kw \<and>
    (arg = ''web'' \<longrightarrow> kw arg = Some (PBool True)) \<and>
    (arg = ''appliances'' \<longrightarrow>
       kw arg = Some (PList (map PStr (form_getlist (form req) ''appliances[]'')))) \<and>
    (arg = ''credentials'' \<longrightarrow>
       decode_credentials req (form_getlist (form req) ''credentials[]'') = Inr (the (kw arg))) \<and>
    (arg = ''out_dir'' \<longrightarrow> kw arg = Some (PStr (os_path_join ''tmp'' [''web'', name, ts]))) \<and>
    (arg = ''out_file'' \<longrightarrow>
       (\<forall>s. d = PStr s \<longrightarrow>
          kw arg = Some (PStr (str_replace
            (os_path_join ''tmp'' [''web'', name, ts @ ''-'' @ name @ snd (os_path_splitext s)])
            os_path_sep ''/''))) \<and>
       (d = PNone \<longrightarrow> kw arg = Some (str_or_default (form_get (form req) ''out_file'') PNone)))"
proof -
  from coerce_loop_value [OF assms(1) [unfolded coerce_kwargs_def] assms(2,3)]
  obtain kw0 kw1 where step: "coerce_arg req name ts kw0 (arg, d) = Inr kw1"
    and same: "kw arg = kw1 arg"
    by blast
  from assms(4) step same show ?thesis
    by (cases d) (auto split: if_splits sum.splits)
qed

theorem skipped_present_witness:
  "coerce_kwargs (request_of (one_field ''appliances[]'' ''dp1'')) ''cert_audit''
     ''20240101-000000'' [(''appliances'', PList []), (''web'', PBool False)] =
     Inr [''appliances'' \<mapsto> PList [PStr ''dp1''], ''web'' \<mapsto> PBool True] \<and>
   (''appliances'', PList []) \<in> set [(''appliances'', PList []), (''web'', PBool False)] \<and>
   distinct (map fst [(''appliances'', PList []), (''web'', PBool False)]) \<and>
   get_form_field [] ''appliances'' (PList []) = Some Skipped \<and>
   ''appliances'' \<in> dom [''appliances'' \<mapsto> PList [PStr ''dp1''], ''web'' \<mapsto> PBool True] \<and>
   [''appliances'' \<mapsto> PList [PStr ''dp1''], ''web'' \<mapsto> PBool True] ''appliances'' =
     Some (PList (map PStr (form_getlist (form (request_of (one_field ''appliances[]'' ''dp1'')))
       ''appliances[]'')))"
proof -
  have 1: "coerce_kwargs (request_of (one_field ''appliances[]'' ''dp1'')) ''cert_audit''
     ''20240101-000000'' [(''appliances'', PList []), (''web'', PBool False)] =
     Inr [''appliances'' \<mapsto> PList [PStr ''dp1''], ''web'' \<mapsto> PBool True]"
    by (simp add: coerce_kwargs_def request_of_def one_field_def form_getlist_def)
  have 2: "(''appliances'', PList []) \<in> set [(''appliances'', PList []), (''web'', PBool False)]"
    by simp
  have 3: "distinct (map fst [(''appliances'', PList []), (''web'', PBool False)])" by simp
  have 4: "get_form_field [] ''appliances'' (PList []) = Some Skipped" by simp
  from skipped_present [OF 1 2 3 4] 1 2 3 4 show ?thesis by simp
qed

section \<open>The synthesized output file\<close>

lemma str_replace_same: "str_replace s c [c] = s"
  by (induction s) (simp_all add: str_replace_def)

lemma join_out_file:
  assumes "name \<noteq> []" and "CHR ''/'' \<notin> set name" and "CHR ''/'' \<notin> set ts"
  shows "os_path_join ''tmp'' [''web'', name, ts @ ''-'' @ name @ ext] =
           ''tmp/web/'' @ name @ ''/'' @ ts @ ''-'' @ name @ ext"
proof -
  from assms(1,2) have hd: "hd name \<noteq> CHR ''/''" and lst: "last name \<noteq> CHR ''/''"
    by (auto dest: hd_in_set last_in_set)
  have f: "hd (ts @ ''-'' @ name @ ext) \<noteq> CHR ''/''"
    using assms(3) by (cases ts) auto
  show ?thesis
    using assms(1) hd lst f
    by (simp add: os_path_join_def join_step_def os_path_sep_def)
qed

text \<open>
  Claim C6, as stated, fails. For the descriptor \<^verbatim>\<open>{out_file: str="report.xlsx"}\<close>, the
  command name \<^verbatim>\<open>audit\<close> and the timestamp \<^verbatim>\<open>20240101-000000\<close>, the claim gives the path
  \<^verbatim>\<open>tmp/web/audit/20240101-audit-audit.xlsx\<close>. The code, and the formula of the claim
  itself, give \<^verbatim>\<open>tmp/web/audit/20240101-000000-audit.xlsx\<close>: the whole timestamp, then
  the command name once.
\<close>

theorem out_file_scenario:
  "kwarg (coerce_kwargs (request_of no_fields) ''audit'' ''20240101-000000''
            [(''out_file'', PStr ''report.xlsx'')]) ''out_file'' =
     Inr (Some (PStr ''tmp/web/audit/20240101-000000-audit.xlsx'')) \<and>
   kwarg (coerce_kwargs (request_of no_fields) ''audit'' ''20240101-000000''
            [(''out_file'', PStr ''report.xlsx'')]) ''out_file'' \<noteq>
     Inr (Some (PStr ''tmp/web/audit/20240101-audit-audit.xlsx''))"
  by (simp add: kwarg_def coerce_kwargs_def os_path_join_def join_step_def os_path_sep_def
      os_path_splitext_def rfind_def splitext_scan.simps str_replace_def)

text \<open>
  Claim C6, amended. For every command whose descriptor has a string-defaulted
  \<^verbatim>\<open>out_file\<close> parameter (the parameter names distinct, the command name not empty, no
  separator in the command name or in the timestamp), whenever the coercion
  completes the value of \<^verbatim>\<open>out_file\<close> is
  \<^verbatim>\<open>tmp/web/{commandName}/{timestamp}-{commandName}{originalExtension}\<close>, the extension
  being the one \<^verbatim>\<open>os.path.splitext\<close> finds in the descriptor default; for the
  descriptor \<^verbatim>\<open>{out_file: str="report.xlsx"}\<close>, the command name \<^verbatim>\<open>audit\<close> and the
  timestamp \<^verbatim>\<open>20240101-000000\<close> it is \<^verbatim>\<open>tmp/web/audit/20240101-000000-audit.xlsx\<close>.
\<close>

theorem out_file_synthesized:
  assumes "coerce_kwargs req name ts arguments = Inr kw"
    and "(''out_file'', PStr d) \<in> set arguments"
    and "distinct (map fst arguments)"
    and "name \<noteq> []" and "CHR ''/'' \<notin> set name" and "CHR ''/'' \<notin> set ts"
  shows "kw ''out_file'' =
           Some (PStr (''tmp/web/'' @ name @ ''/'' @ ts @ ''-'' @ name @ snd (os_path_splitext d)))"
proof -
  from coerce_loop_value [OF assms(1) [unfolded coerce_kwargs_def] assms(2,3)]
  obtain kw0 kw1 where "coerce_arg req name ts kw0 (''out_file'', PStr d) = Inr kw1"
    and "kw ''out_file'' = kw1 ''out_file''"
    by blast
  then show ?thesis
    using join_out_file [OF assms(4,5,6)]
    by (auto simp: os_path_sep_def str_replace_same)
qed

theorem out_file_synthesized_witness:
  "coerce_kwargs (request_of no_fields) ''audit'' ''20240101-000000''
     [(''out_file'', PStr ''report.xlsx'')] =
     Inr [''out_file'' \<mapsto> PStr ''tmp/web/audit/20240101-000000-audit.xlsx''] \<and>
   (''out_file'', PStr ''report.xlsx'') \<in> set [(''out_file'', PStr ''report.xlsx'')] \<and>
   distinct (map fst [(''out_file'', PStr ''report.xlsx'')]) \<and>
   ''audit'' \<noteq> [] \<and> CHR ''/'' \<notin> set ''audit'' \<and> CHR ''/'' \<notin> set ''20240101-000000'' \<and>
   [''out_file'' \<mapsto> PStr ''tmp/web/audit/20240101-000000-audit.xlsx''] ''out_file'' =
     Some (PStr (''tmp/web/'' @ ''audit'' @ ''/'' @ ''20240101-000000'' @ ''-'' @ ''audit'' @
                 snd (os_path_splitext ''report.xlsx'')))"
proof -
  have 1: "coerce_kwargs (request_of no_fields) ''audit'' ''20240101-000000''
     [(''out_file'', PStr ''report.xlsx'')] =
     Inr [''out_file'' \<mapsto> PStr ''tmp/web/audit/20240101-000000-audit.xlsx'']"
    by (simp add: coerce_kwargs_def os_path_join_def join_step_def os_path_sep_def
      os_path_splitext_def rfind_def splitext_scan.simps str_replace_def)
  have 2: "(''out_file'', PStr ''report.xlsx'') \<in> set [(''out_file'', PStr ''report.xlsx'')]"
    by simp
  have 3: "distinct (map fst [(''out_file'', PStr ''report.xlsx'')])" by simp
  have 4: "''audit'' \<noteq> []" by simp
  have 5: "CHR ''/'' \<notin> set ''audit''" by simp
  have 6: "CHR ''/'' \<notin> set ''20240101-000000''" by simp
  from out_file_synthesized [OF 1 2 3 4 5 6] 1 2 3 4 5 6 show ?thesis by simp
qed

section \<open>Boolean parameters\<close>

text \<open>
  Claim C7, as stated, fails. The claim makes a boolean parameter other than \<^verbatim>\<open>web\<close>
  true exactly when its field is submitted with a truthy value. The code compares the
  submitted value with the string \<^verbatim>\<open>true\<close>: the submitted string \<^verbatim>\<open>false\<close>, which is not
  empty and so is truthy, is coerced to \<^verbatim>\<open>False\<close>.
\<close>

theorem bool_field_truthy_false:
  "form_get (one_field ''localtime'' ''false'') ''localtime'' = Some ''false'' \<and>
   truthy (PStr ''false'') \<and>
   kwarg (coerce_kwargs (request_of (one_field ''localtime'' ''false'')) ''cert_audit''
            ''20240101-000000'' [(''localtime'', PBool False)]) ''localtime'' =
     Inr (Some (PBool False))"
  by (simp add: kwarg_def coerce_kwargs_def request_of_def one_field_def form_get_def)

text \<open>
  Claim C7, amended. For every parameter with a boolean descriptor default (the
  parameter names distinct): if the name is \<^verbatim>\<open>web\<close> the coerced value is true whatever
  the submission; otherwise the coerced value is true exactly when the first value
  submitted for the field is the string \<^verbatim>\<open>true\<close>, and false in every other case (absent
  field, or any other submitted value).
\<close>

theorem bool_field_coerced:
  assumes "coerce_kwargs req name ts arguments = Inr kw"
    and "(arg, PBool b) \<in> set arguments"
    and "distinct (map fst arguments)"
  shows "kw arg = Some (PBool (arg = ''web'' \<or> form_get (form req) arg = Some ''true''))"
proof -
  from coerce_loop_value [OF assms(1) [unfolded coerce_kwargs_def] assms(2,3)]
  obtain kw0 kw1 where "coerce_arg req name ts kw0 (arg, PBool b) = Inr kw1"
    and "kw arg = kw1 arg"
    by blast
  then show ?thesis by (auto split: if_splits)
qed

theorem bool_field_coerced_witness:
  "coerce_kwargs (request_of (two_fields ''localtime'' ''true'' ''days_only'' ''on''))
     ''cert_audit'' ''20240101-000000''
     [(''localtime'', PBool False), (''days_only'', PBool True)] =
     Inr [''localtime'' \<mapsto> PBool True, ''days_only'' \<mapsto> PBool False] \<and>
   (''localtime'', PBool False) \<in> set [(''localtime'', PBool False), (''days_only'', PBool True)] \<and>
   distinct (map fst [(''localtime'', PBool False), (''days_only'', PBool True)]) \<and>
   [''localtime'' \<mapsto> PBool True, ''days_only'' \<mapsto> PBool False] ''localtime'' =
     Some (PBool (''localtime'' = ''web'' \<or>
       form_get (form (request_of (two_fields ''localtime'' ''true'' ''days_only'' ''on'')))
         ''localtime'' = Some ''true''))"
proof -
  have 1: "coerce_kwargs (request_of (two_fields ''localtime'' ''true'' ''days_only'' ''on''))
     ''cert_audit'' ''20240101-000000''
     [(''localtime'', PBool False), (''days_only'', PBool True)] =
     Inr [''localtime'' \<mapsto> PBool True, ''days_only'' \<mapsto> PBool False]"
    by (simp add: coerce_kwargs_def request_of_def two_fields_def form_get_def)
  have 2: "(''localtime'', PBool False) \<in>
             set [(''localtime'', PBool False), (''days_only'', PBool True)]"
    by simp
  have 3: "distinct (map fst [(''localtime'', PBool False), (''days_only'', PBool True)])"
    by simp
  from bool_field_coerced [OF 1 2 3] 1 2 3 show ?thesis by simp
qed

section \<open>The invoker and an empty list of appliances\<close>

text \<open>What the guard does when the first appliance is false, as in \<^verbatim>\<open>[""]\<close>: the fixed
  message is returned as output and written as history, and the command is not called.\<close>

lemma first_appliance_false:
  assumes "kwargs ''appliances'' = Some v" and "subscript0 v = Inr first" and "\<not> truthy first"
    and "''web'' \<in> dom kwargs"
  shows "priv_call_method func kwargs w =
           write_history (PStr ''Must select at least one appliance.'')
             (PStr ''Must select at least one appliance.'') w"
  using assms
  by (simp add: priv_call_method_def select_func_def try_call_def no_appliance_func_def)

text \<open>
  Claim C4. The claim has the invoker return the fixed message, without raising, for
  every mapping whose entry \<^verbatim>\<open>appliances\<close> is the empty list. For the mapping
  \<^verbatim>\<open>{"appliances": [], "web": True}\<close> the guard evaluates \<^verbatim>\<open>kwargs["appliances"][0]\<close>,
  which raises \<^verbatim>\<open>IndexError\<close> outside the \<^verbatim>\<open>try\<close>: whatever the command and the world,
  \<^verbatim>\<open>_call_method\<close> raises and returns no message.
\<close>

theorem empty_appliances_raises:
  "priv_call_method func web_no_appliance w =
     (Inl (PyExc IndexError ''list index out of range''), w)"
  by (simp add: priv_call_method_def select_func_def web_no_appliance_def)

section \<open>The invoker and a command that raises\<close>

text \<open>
  Claim C1, as stated, fails. The claim has the invoker absorb any exception of the
  command. The handler is \<^verbatim>\<open>except Exception\<close>: a command that leaves by \<^verbatim>\<open>sys.exit(2)\<close>,
  as \<^verbatim>\<open>cert_audit\<close> does, raises \<^verbatim>\<open>SystemExit\<close>, which does not derive from \<^verbatim>\<open>Exception\<close>
  and passes through \<^verbatim>\<open>_call_method\<close> to its caller.
\<close>

theorem system_exit_propagates:
  "''web'' \<in> dom web_only \<and>
   exiting_func web_only sample_world = (Inl (PyExc SystemExit ''2''), sample_world) \<and>
   priv_call_method exiting_func web_only sample_world =
     (Inl (PyExc SystemExit ''2''), sample_world)"
  by (simp add: priv_call_method_def select_func_def try_call_def except_Exception_def
      web_only_def exiting_func_def)

text \<open>
  Claim C1, amended. For every command and every coerced mapping that contains the
  key \<^verbatim>\<open>web\<close> and whose entry \<^verbatim>\<open>appliances\<close> is absent or has a true first element (so
  that the command itself is called), if the command raises an exception that derives
  from \<^verbatim>\<open>Exception\<close>, then \<^verbatim>\<open>_call_method\<close> does not raise: it returns the generic
  unhandled-exception message, which ends with the text of the exception, together
  with the name of the history log, and the log holds the traceback, which is also
  written to the standard error stream.
\<close>

theorem unhandled_exception_reported:
  assumes "''web'' \<in> dom kwargs"
    and "kwargs ''appliances'' = None \<or>
         (\<exists>v first. kwargs ''appliances'' = Some v \<and> subscript0 v = Inr first \<and> truthy first)"
    and "func kwargs w = (Inl e, w')"
    and "is_Exception (exc_cls e)"
  shows "priv_call_method func kwargs w =
     (Inr (Some (PStr (unhandled_message e), history_id (clock w') (randint w'))),
      w'\<lparr>stderr := stderr w' @ format_exc w' e,
         files := (files w')
           (os_path_join (history_dir (clock w')) [history_id (clock w') (randint w')]
              \<mapsto> format_exc w' e)\<rparr>) \<and>
     (\<exists>prefix. unhandled_message e = prefix @ exc_str e)"
proof -
  from assms(2) have sel: "select_func func kwargs = Inr func"
    by (auto simp: select_func_def)
  from assms(3,4) have "try_call func kwargs w =
      (Inr (PStr (unhandled_message e), PStr (format_exc w' e)),
       w'\<lparr>stderr := stderr w' @ format_exc w' e\<rparr>)"
    by (simp add: try_call_def except_Exception_def)
  with sel assms(1) have "priv_call_method func kwargs w =
     (Inr (Some (PStr (unhandled_message e), history_id (clock w') (randint w'))),
      w'\<lparr>stderr := stderr w' @ format_exc w' e,
         files := (files w')
           (os_path_join (history_dir (clock w')) [history_id (clock w') (randint w')]
              \<mapsto> format_exc w' e)\<rparr>)"
    by (simp add: priv_call_method_def write_history_def Let_def)
  moreover have "\<exists>prefix. unhandled_message e = prefix @ exc_str e"
    unfolding unhandled_message_def by (metis append.assoc)
  ultimately show ?thesis by simp
qed

theorem unhandled_exception_reported_witness:
  "''web'' \<in> dom web_only \<and> web_only ''appliances'' = None \<and>
   raising_func web_only sample_world =
     (Inl (PyExc ValueError ''out_file must be either csv or xlsx''), sample_world) \<and>
   is_Exception (exc_cls (PyExc ValueError ''out_file must be either csv or xlsx'')) \<and>
   fst (priv_call_method raising_func web_only sample_world) =
     Inr (Some (PStr (unhandled_message (PyExc ValueError ''out_file must be either csv or xlsx'')),
                ''20240101-000000-12345.log'')) \<and>
   files (snd (priv_call_method raising_func web_only sample_world))
     ''var/www/static/tmp/request_history/20240101-000000/20240101-000000-12345.log'' =
     Some ''Traceback (most recent call last): out_file must be either csv or xlsx''"
proof -
  have 1: "''web'' \<in> dom web_only" by (simp add: web_only_def)
  have 2: "web_only ''appliances'' = None" by (simp add: web_only_def)
  have 3: "raising_func web_only sample_world =
     (Inl (PyExc ValueError ''out_file must be either csv or xlsx''), sample_world)"
    by (simp add: raising_func_def)
  have 4: "is_Exception (exc_cls (PyExc ValueError ''out_file must be either csv or xlsx''))"
    by simp
  have 5: "history_id ''20240101-000000'' 12345 = ''20240101-000000-12345.log''"
    by (simp add: history_id_def str_nat.simps)
  have 6: "os_path_join (history_dir ''20240101-000000'') [''20240101-000000-12345.log''] =
     ''var/www/static/tmp/request_history/20240101-000000/20240101-000000-12345.log''"
    by (simp add: history_dir_def os_path_join_def join_step_def os_path_sep_def)
  have h2: "web_only ''appliances'' = None \<or>
      (\<exists>v first. web_only ''appliances'' = Some v \<and> subscript0 v = Inr first \<and> truthy first)"
    using 2 by simp
  from unhandled_exception_reported
    [where func = raising_func and kwargs = web_only and w = sample_world, OF 1 h2 3 4] 1 2 3 4 5 6
  show ?thesis by (simp add: sample_world_def sample_format_exc_def)
qed

section \<open>The invoker without the key \<^verbatim>\<open>web\<close>\<close>

lemma write_history_result:
  "write_history out hist w = (Inr r, w') \<Longrightarrow> r \<noteq> None"
  by (auto simp: write_history_def Let_def split: pyval.splits)

lemma call_method_returns:
  assumes "priv_call_method func kwargs w = (Inr r, w')"
  shows "(r \<noteq> None) = (''web'' \<in> dom kwargs)"
proof (cases "''web'' \<in> dom kwargs")
  case True
  with assms have "r \<noteq> None"
    by (auto simp: priv_call_method_def split: sum.splits prod.splits if_splits
        dest: write_history_result)
  with True show ?thesis by simp
next
  case False
  with assms have "r = None"
    by (auto simp: priv_call_method_def split: sum.splits)
  with False show ?thesis by simp
qed

lemma call_method_no_web:
  assumes "''web'' \<notin> dom kwargs"
  shows "fst (priv_call_method func kwargs w) = Inr None \<or>
         isl (fst (priv_call_method func kwargs w))"
  using assms by (auto simp: priv_call_method_def split: sum.splits)

text \<open>
  Claim C10, as stated, fails. The claim confines the submission path to commands
  that declare a boolean parameter \<^verbatim>\<open>web\<close>. The key \<^verbatim>\<open>web\<close> enters the mapping through
  any branch of the chain: for the command \<^verbatim>\<open>def probe(web=None)\<close>, which has no boolean
  parameter, the loop sets \<^verbatim>\<open>kwargs["web"]\<close> to \<^verbatim>\<open>form.get("web") or None\<close>, the key is
  present, \<^verbatim>\<open>_call_method\<close> returns its pair and the unpacking in \<^verbatim>\<open>call_method\<close> succeeds.
\<close>

theorem web_param_with_other_default:
  "cmd_args probe_cmd = [''web''] \<and> cmd_defaults probe_cmd = Some [PNone] \<and>
   fst (call_method_invoke probe_catalogue (request_of (one_field ''callable'' ''probe''))
          sample_world) =
     Inr (PStr ''<table/>'', ''20240101-000000-12345.log'', [''web'' \<mapsto> PNone])"
proof -
  have h: "history_id ''20240101-000000'' 12345 = ''20240101-000000-12345.log''"
    by (simp add: history_id_def str_nat.simps)
  have g: "priv_get_arguments probe_catalogue (Some ''probe'') =
             Inr ([(''web'', PNone)], probe_cmd)"
    by (simp add: priv_get_arguments_def probe_catalogue_def probe_cmd_def)
  have c: "coerce_kwargs (request_of (one_field ''callable'' ''probe'')) ''probe''
             ''20240101-000000'' [(''web'', PNone)] = Inr [''web'' \<mapsto> PNone]"
    by (simp add: coerce_kwargs_def request_of_def one_field_def form_get_def str_or_default_def)
  have p: "priv_call_method returning_func [''web'' \<mapsto> PNone] sample_world =
             (Inr (Some (PStr ''<table/>'', ''20240101-000000-12345.log'')),
              sample_world\<lparr>files := (files sample_world)
                (os_path_join (history_dir ''20240101-000000'') [''20240101-000000-12345.log'']
                   \<mapsto> ''history'')\<rparr>)"
    using h
    by (simp add: priv_call_method_def select_func_def try_call_def returning_func_def
        write_history_def sample_world_def Let_def)
  show ?thesis
    using g c p
    by (simp add: call_method_invoke_def request_of_def one_field_def form_get_def
        probe_cmd_def sample_world_def)
qed

text \<open>
  Claim C10, amended. Whenever \<^verbatim>\<open>_call_method\<close> returns, it returns a pair of display
  output and history id exactly when the key \<^verbatim>\<open>web\<close> is present in the coerced mapping,
  and \<^verbatim>\<open>None\<close> when it is absent. So for every command found by the lookup that has no
  parameter named \<^verbatim>\<open>web\<close> with a default of type bool, list, str, int or None, the
  key is absent and \<^verbatim>\<open>call_method\<close> raises, at the latest when it unpacks the result of
  \<^verbatim>\<open>_call_method\<close>.
\<close>

theorem no_web_key_no_result:
  assumes "priv_get_arguments command_list (form_get (form req) ''callable'') =
             Inr (arguments, cmd)"
    and "\<forall>d. (''web'', d) \<in> set arguments \<longrightarrow> \<not> has_branch d"
  shows "(\<forall>func kwargs w0 r w1. priv_call_method func kwargs w0 = (Inr r, w1) \<longrightarrow>
            (r \<noteq> None) = (''web'' \<in> dom kwargs)) \<and>
         isl (fst (call_method_invoke command_list req w))"
proof
  show "\<forall>func kwargs w0 r w1. priv_call_method func kwargs w0 = (Inr r, w1) \<longrightarrow>
          (r \<noteq> None) = (''web'' \<in> dom kwargs)"
    using call_method_returns by blast
next
  show "isl (fst (call_method_invoke command_list req w))"
  proof (cases "coerce_kwargs req (cmd_name cmd) (clock w) arguments")
    case (Inl e)
    with assms(1) show ?thesis by (simp add: call_method_invoke_def)
  next
    case (Inr kwargs)
    have "''web'' \<notin> dom kwargs"
    proof
      assume "''web'' \<in> dom kwargs"
      from coerce_loop_key [OF Inr [unfolded coerce_kwargs_def] this] assms(2)
      show False by auto
    qed
    from call_method_no_web [OF this, of "cmd_call cmd" w] assms(1) Inr
    show ?thesis
      by (auto simp: call_method_invoke_def split: prod.splits sum.splits option.splits)
  qed
qed

theorem no_web_key_no_result_witness:
  "priv_get_arguments ping_catalogue
     (form_get (form (request_of (two_fields ''callable'' ''ping'' ''timeout'' ''30'')))
        ''callable'') =
     Inr ([(''timeout'', PInt 120)], ping_cmd) \<and>
   ''web'' \<notin> fst ` set [(''timeout'', PInt 120)] \<and>
   priv_call_method returning_func [''timeout'' \<mapsto> PInt 30] sample_world =
     (Inr None, sample_world) \<and>
   call_method_invoke ping_catalogue
     (request_of (two_fields ''callable'' ''ping'' ''timeout'' ''30'')) sample_world =
     (Inl (PyExc TypeError ''cannot unpack non-iterable NoneType object''), sample_world) \<and>
   isl (fst (call_method_invoke ping_catalogue
     (request_of (two_fields ''callable'' ''ping'' ''timeout'' ''30'')) sample_world))"
proof -
  let ?req = "request_of (two_fields ''callable'' ''ping'' ''timeout'' ''30'')"
  have 1: "priv_get_arguments ping_catalogue (form_get (form ?req) ''callable'') =
     Inr ([(''timeout'', PInt 120)], ping_cmd)"
    by (simp add: priv_get_arguments_def ping_catalogue_def ping_cmd_def request_of_def
        two_fields_def form_get_def)
  have 2: "\<forall>d. (''web'', d) \<in> set [(''timeout'', PInt 120)] \<longrightarrow> \<not> has_branch d"
    by simp
  have 3: "''web'' \<notin> fst ` set [(''timeout'', PInt 120)]" by simp
  have 4: "priv_call_method returning_func [''timeout'' \<mapsto> PInt 30] sample_world =
             (Inr None, sample_world)"
    by (simp add: priv_call_method_def select_func_def)
  have 5: "coerce_kwargs ?req ''ping'' ''20240101-000000'' [(''timeout'', PInt 120)] =
             Inr [''timeout'' \<mapsto> PInt 30]"
    by (simp add: coerce_kwargs_def request_of_def two_fields_def form_get_def
      py_int_def int_of_str_def strip_def is_space_def is_digit_def digit_val_def
      int_or_default_def)
  have 6: "call_method_invoke ping_catalogue ?req sample_world =
     (Inl (PyExc TypeError ''cannot unpack non-iterable NoneType object''), sample_world)"
    using 1 4 5
    by (simp add: call_method_invoke_def ping_cmd_def sample_world_def)
  from no_web_key_no_result [OF 1 2, of sample_world] 1 3 4 6 show ?thesis by simp
qed

end
